theory Spec2Isabelle
  imports Main "HOL-Library.Word"
begin

unbundle bit_operations_syntax

section \<open>Data model\<close>

text \<open>
  The development follows the Go sources: the host-device driver and the node-agent
  driver (drivers/hostdevice/main.go), the sub-interface helpers
  (pkg/net/subinterfaces.go), the driver interface (pkg/driver/driver.go) and the
  sample reconciler (drivers/subinterface/controlller/main.go).
  Calls to klog only write log lines and are left out of every definition.
\<close>

subsection \<open>Links as netlink presents them\<close>

text \<open>\<open>net.Flags\<close> is Go's \<open>uint\<close>; \<open>FlagUp = 1 << 0\<close>, \<open>FlagLoopback = 1 << 2\<close>.\<close>

type_synonym Flags = "64 word"

definition FlagUp :: Flags where
  "FlagUp = 1"

definition FlagLoopback :: Flags where
  "FlagLoopback = 4"

type_synonym MacvlanMode = "16 word"
type_synonym IPVlanMode = "16 word"

record LinkAttrs =
  Index :: int
  Name :: string
  HardwareAddr :: "8 word list"
  Flags :: Flags
  ParentIndex :: int
  NetNsID :: int

datatype Link =
    Device LinkAttrs
  | Macvlan LinkAttrs MacvlanMode
  | IPVlan LinkAttrs IPVlanMode

fun Attrs :: "Link \<Rightarrow> LinkAttrs" where
  "Attrs (Device a) = a"
| "Attrs (Macvlan a m) = a"
| "Attrs (IPVlan a m) = a"

text \<open>\<open>net.HardwareAddr.String\<close>: two lower-case hex digits per byte, joined by colons.\<close>

definition hexDigit :: string where
  "hexDigit = ''0123456789abcdef''"

fun HardwareAddr_String :: "8 word list \<Rightarrow> string" where
  "HardwareAddr_String [] = []"
| "HardwareAddr_String [b] = [hexDigit ! unat (drop_bit 4 b), hexDigit ! unat (b AND 15)]"
| "HardwareAddr_String (b # bs) =
     [hexDigit ! unat (drop_bit 4 b), hexDigit ! unat (b AND 15)] @ '':'' @ HardwareAddr_String bs"

subsection \<open>Resource API objects\<close>

datatype DeviceAttribute = StringValue string

record Device =
  Device_Name :: string
  Device_Attributes :: "string \<rightharpoonup> DeviceAttribute"

record DeviceRequestAllocationResult =
  Result_Request :: string
  Result_Driver :: string
  Result_Pool :: string
  Result_Device :: string

text \<open>
  A claim: \<open>Allocation\<close> stands for \<open>claim.Status.Allocation\<close>, a pointer that may be nil,
  and holds \<open>Allocation.Devices.Results\<close>.
\<close>

record ResourceClaim =
  Claim_Name :: string
  Claim_UID :: string
  Allocation :: "DeviceRequestAllocationResult list option"

record NamespacedObject =
  Object_Name :: string
  Object_Namespace :: string
  Object_UID :: string

record PodSandbox =
  Pod_Name :: string
  Pod_Namespace :: string
  Pod_Uid :: string

text \<open>\<open>driver.AllocatedDevice\<close> of pkg/driver/driver.go.\<close>

record AllocatedDevice =
  AD_Name :: string
  AD_Attributes :: "string \<rightharpoonup> string"
  PoolName :: string
  Request :: string

text \<open>
  A value of Go's \<open>interface{}\<close>, as far as the drivers produce and inspect it.
  \<open>dynType\<close> is what the verb \<open>%T\<close> prints.
\<close>

datatype any = AString string | AInt int | ABool bool | ANil

fun dynType :: "any \<Rightarrow> string" where
  "dynType (AString s) = ''string''"
| "dynType (AInt i) = ''int''"
| "dynType (ABool b) = ''bool''"
| "dynType ANil = ''<nil>''"

subsection \<open>Errors\<close>

text \<open>Errors of the operating system and of the netlink library.\<close>

datatype syserr = ENOENT | EACCES | EEXIST | EBUSY | EINVAL | ENODEV | ERANGE | LinkNotFound

fun syserr_Error :: "syserr \<Rightarrow> string" where
  "syserr_Error ENOENT = ''no such file or directory''"
| "syserr_Error EACCES = ''permission denied''"
| "syserr_Error EEXIST = ''file exists''"
| "syserr_Error EBUSY = ''device or resource busy''"
| "syserr_Error EINVAL = ''invalid argument''"
| "syserr_Error ENODEV = ''no such device''"
| "syserr_Error ERANGE = ''numerical result out of range''"
| "syserr_Error LinkNotFound = ''Link not found''"

text \<open>Errors of the Kubernetes API client; \<open>IsNotFound\<close> is \<open>errors.IsNotFound\<close>.\<close>

datatype apierr = NotFound | AlreadyExists | Forbidden | ServerTimeout

fun IsNotFound :: "apierr \<Rightarrow> bool" where
  "IsNotFound NotFound = True"
| "IsNotFound e = False"

fun apierr_Error :: "apierr \<Rightarrow> string" where
  "apierr_Error NotFound = ''not found''"
| "apierr_Error AlreadyExists = ''already exists''"
| "apierr_Error Forbidden = ''forbidden''"
| "apierr_Error ServerTimeout = ''server timeout''"

text \<open>
  One constructor per \<open>fmt.Errorf\<close> of the sources, carrying its arguments;
  \<open>Sys\<close> is an operating-system error returned unwrapped. \<open>AttachFailed\<close> and
  \<open>DetachFailed\<close> are the errors of the two move helpers modelled further down.
\<close>

datatype error =
    ListInterfacesFailed syserr
  | NoAllocatedDevices string
  | InvalidPreparedDataType string
  | NsFromPathFailed string string syserr
  | ParentNotFound string syserr
  | MacvlanCreateFailed string syserr
  | IPVlanCreateFailed string syserr
  | WritePodUIDFailed syserr
  | DeleteSliceFailed string apierr
  | AttachFailed string string syserr
  | DetachFailed string string syserr
  | Sys syserr

fun Error :: "error \<Rightarrow> string" where
  "Error (ListInterfacesFailed e) = ''failed to list network interfaces: '' @ syserr_Error e"
| "Error (NoAllocatedDevices c) = ''claim '' @ c @ '' has no allocated devices''"
| "Error (InvalidPreparedDataType t) = ''invalid prepared data type: expected string, got '' @ t"
| "Error (NsFromPathFailed p d e) =
     ''could not get network namespace from path '' @ p @ '' for network device '' @ d
       @ '' : '' @ syserr_Error e"
| "Error (ParentNotFound d e) = ''could not find parent interface '' @ d @ '' : '' @ syserr_Error e"
| "Error (MacvlanCreateFailed n e) =
     ''failed to create the '' @ n @ '' macvlan interface: '' @ syserr_Error e"
| "Error (IPVlanCreateFailed n e) =
     ''failed to create the '' @ n @ '' ipvlan interface: '' @ syserr_Error e"
| "Error (WritePodUIDFailed e) = ''failed to write pod UID to resource file: '' @ syserr_Error e"
| "Error (DeleteSliceFailed n e) = ''failed to delete ResourceSlice '' @ n @ '': '' @ apierr_Error e"
| "Error (AttachFailed d p e) =
     ''could not move interface '' @ d @ '' to namespace '' @ p @ '': '' @ syserr_Error e"
| "Error (DetachFailed d p e) =
     ''could not move interface '' @ d @ '' out of namespace '' @ p @ '': '' @ syserr_Error e"
| "Error (Sys e) = syserr_Error e"

section \<open>The host-device driver\<close>

subsection \<open>GetDevices\<close>

text \<open>\<open>strings.HasPrefix\<close>.\<close>

definition HasPrefix :: "string \<Rightarrow> string \<Rightarrow> bool" where
  "HasPrefix s p = (take (length p) s = p)"

text \<open>The two \<open>continue\<close> guards of the loop, in the order of the source.\<close>

definition skipped :: "LinkAttrs \<Rightarrow> bool" where
  "skipped attrs =
     (if Flags attrs AND FlagLoopback \<noteq> 0 \<or> Flags attrs AND FlagUp = 0 then True
      else if HasPrefix (Name attrs) ''veth'' \<or> HasPrefix (Name attrs) ''docker''
              \<or> HasPrefix (Name attrs) ''cni'' then True
      else False)"

definition mkDevice :: "LinkAttrs \<Rightarrow> Device" where
  "mkDevice attrs =
     \<lparr> Device_Name = Name attrs,
       Device_Attributes =
         [''interface-name'' \<mapsto> StringValue (Name attrs),
          ''mac-address'' \<mapsto> StringValue (HardwareAddr_String (HardwareAddr attrs))] \<rparr>"

fun appendDevices :: "Link list \<Rightarrow> Device list \<Rightarrow> Device list" where
  "appendDevices [] devices = devices"
| "appendDevices (link # links) devices =
     (if skipped (Attrs link) then appendDevices links devices
      else appendDevices links (devices @ [mkDevice (Attrs link)]))"

text \<open>The argument is what \<open>netlink.LinkList()\<close> returned.\<close>

definition GetDevices :: "syserr + Link list \<Rightarrow> error + Device list" where
  "GetDevices linkList =
     (case linkList of
        Inl err \<Rightarrow> Inl (ListInterfacesFailed err)
      | Inr links \<Rightarrow> Inr (appendDevices links []))"

subsection \<open>PrepareDevice and UnprepareDevice\<close>

definition hostdevice_PrepareDevice :: "ResourceClaim \<Rightarrow> error + any" where
  "hostdevice_PrepareDevice claim =
     (case Allocation claim of
        None \<Rightarrow> Inl (NoAllocatedDevices (Claim_Name claim))
      | Some [] \<Rightarrow> Inl (NoAllocatedDevices (Claim_Name claim))
      | Some (r # rs) \<Rightarrow> Inr (AString (Result_Device r)))"

definition hostdevice_UnprepareDevice :: "NamespacedObject \<Rightarrow> error option" where
  "hostdevice_UnprepareDevice claim = None"

section \<open>The kernel's network state\<close>

text \<open>
  The environment of the drivers: the interfaces of the host namespace, the namespaces
  that a path opens (\<open>nspath\<close> gives the handle \<open>netns.GetFromPath\<close> returns), the
  interfaces of each namespace, and for each parent interface index the kind of slave
  port registered on it with the number of its slaves. The kernel allows one kind of
  port per parent (the comment in addMacVlan and addIPVlan: only one slave kind can be
  active at a time), and refuses the other with EBUSY.
  Interfaces are keyed by name, so a namespace never holds two of one name.
\<close>

datatype LinkKind = PlainDevice | MacvlanSlave MacvlanMode | IPVlanSlave IPVlanMode

record netdev =
  dev_Index :: int
  dev_HardwareAddr :: "8 word list"
  dev_Flags :: Flags
  dev_ParentIndex :: int
  dev_Kind :: LinkKind

datatype PortKind = MacvlanPort | IPVlanPort

record kernel =
  host :: "string \<rightharpoonup> netdev"
  nspath :: "string \<rightharpoonup> int"
  netns :: "int \<rightharpoonup> (string \<rightharpoonup> netdev)"
  ports :: "int \<rightharpoonup> PortKind \<times> nat"

definition link_of :: "string \<Rightarrow> netdev \<Rightarrow> Link" where
  "link_of n d =
     (let a = \<lparr> Index = dev_Index d, Name = n, HardwareAddr = dev_HardwareAddr d,
                 Flags = dev_Flags d, ParentIndex = dev_ParentIndex d, NetNsID = 0 \<rparr>
      in case dev_Kind d of
           PlainDevice \<Rightarrow> Device a
         | MacvlanSlave m \<Rightarrow> Macvlan a m
         | IPVlanSlave m \<Rightarrow> IPVlan a m)"

fun kind_of :: "Link \<Rightarrow> LinkKind" where
  "kind_of (Device a) = PlainDevice"
| "kind_of (Macvlan a m) = MacvlanSlave m"
| "kind_of (IPVlan a m) = IPVlanSlave m"

definition netdev_of :: "Link \<Rightarrow> netdev" where
  "netdev_of l =
     \<lparr> dev_Index = Index (Attrs l), dev_HardwareAddr = HardwareAddr (Attrs l),
       dev_Flags = Flags (Attrs l), dev_ParentIndex = ParentIndex (Attrs l),
       dev_Kind = kind_of l \<rparr>"

fun port_of :: "LinkKind \<Rightarrow> PortKind option" where
  "port_of PlainDevice = None"
| "port_of (MacvlanSlave m) = Some MacvlanPort"
| "port_of (IPVlanSlave m) = Some IPVlanPort"

text \<open>\<open>netns.GetFromPath\<close>: opens the namespace file.\<close>

definition GetFromPath :: "kernel \<Rightarrow> string \<Rightarrow> syserr + int" where
  "GetFromPath k path = (case nspath k path of None \<Rightarrow> Inl ENOENT | Some h \<Rightarrow> Inr h)"

text \<open>\<open>netlink.LinkByName\<close>: looks the name up in the namespace of the caller, the host.\<close>

definition LinkByName :: "kernel \<Rightarrow> string \<Rightarrow> syserr + Link" where
  "LinkByName k name =
     (case host k name of None \<Rightarrow> Inl LinkNotFound | Some d \<Rightarrow> Inr (link_of name d))"

text \<open>
  A call either returns or panics; a panic ends the call before it has changed anything.
\<close>

datatype 'a outcome = Return 'a | Panic

text \<open>
  An interface name has at most \<open>IFNAMSIZ - 1\<close> characters; the kernel answers a longer
  one with ERANGE.
\<close>

definition IFNAMSIZ :: nat where
  "IFNAMSIZ = 16"

text \<open>The ipvlan modes are L2, L3 and L3S, numbered 0 to 2; the kernel answers another with EINVAL.\<close>

fun invalid_mode :: "Link \<Rightarrow> bool" where
  "invalid_mode (IPVlan a m) = (3 \<le> m)"
| "invalid_mode l = False"

text \<open>
  The kernel's part of \<open>netlink.LinkAdd\<close>. The new link is created in the namespace
  that \<open>LinkAttrs.Namespace\<close> gives, a field that addMacVlan and addIPVlan leave
  unset: it is created in the namespace of the caller, the host. \<open>NetNsID\<close>, where the
  helpers put the handle of the container namespace, is not read when a link is
  created. A name the host already has is refused with EEXIST. A slave needs the port
  of its kind on the parent: the first slave registers it, a slave of the other kind is
  refused with EBUSY. The link is kept with the attributes asked for: the index and the
  hardware address that the kernel gives it are not modelled. The parent index is not
  looked up again: the callers take it from \<open>LinkByName\<close> on the same state.
\<close>

definition createLink :: "Link \<Rightarrow> kernel \<Rightarrow> syserr option \<times> kernel" where
  "createLink link k =
     (let a = Attrs link in
      if IFNAMSIZ \<le> length (Name a) then (Some ERANGE, k)
      else if invalid_mode link then (Some EINVAL, k)
      else if host k (Name a) \<noteq> None then (Some EEXIST, k)
      else
        (let k' = k\<lparr>host := (host k)(Name a \<mapsto> netdev_of link)\<rparr>
         in case port_of (kind_of link) of
              None \<Rightarrow> (None, k')
            | Some pk \<Rightarrow>
                (case ports k (ParentIndex a) of
                   None \<Rightarrow> (None, k'\<lparr>ports := (ports k)(ParentIndex a \<mapsto> (pk, 1))\<rparr>)
                 | Some (pk', n) \<Rightarrow>
                     if pk' \<noteq> pk then (Some EBUSY, k)
                     else (None, k'\<lparr>ports := (ports k)(ParentIndex a \<mapsto> (pk, Suc n))\<rparr>))))"

text \<open>
  \<open>netlink.LinkAdd\<close>. The library translates a macvlan mode other than the default 0
  through a table of six entries, so a mode of 6 or more panics with an index out of
  range before anything is sent to the kernel.
\<close>

definition LinkAdd :: "Link \<Rightarrow> kernel \<Rightarrow> (syserr option \<times> kernel) outcome" where
  "LinkAdd link k =
     (case link of
        Macvlan a m \<Rightarrow> if 6 \<le> m then Panic else Return (createLink link k)
      | _ \<Rightarrow> Return (createLink link k))"

section \<open>Sub-interfaces\<close>

text \<open>pkg/net/subinterfaces.go. Closing the namespace handle changes no interface.\<close>

definition addMacVlan ::
  "string \<Rightarrow> string \<Rightarrow> MacvlanMode \<Rightarrow> kernel \<Rightarrow> (error option \<times> kernel) outcome" where
  "addMacVlan containerNsPAth devName mode k =
     (case GetFromPath k containerNsPAth of
        Inl err \<Rightarrow> Return (Some (NsFromPathFailed containerNsPAth devName err), k)
      | Inr containerNs \<Rightarrow>
          (case LinkByName k devName of
             Inl err \<Rightarrow> Return (Some (ParentNotFound devName err), k)
           | Inr parentLink \<Rightarrow>
               (let macvlan = Macvlan \<lparr> Index = 0, Name = ''mavlan-'' @ devName, HardwareAddr = [],
                                        Flags = 0, ParentIndex = Index (Attrs parentLink),
                                        NetNsID = containerNs \<rparr> mode
                in case LinkAdd macvlan k of
                     Panic \<Rightarrow> Panic
                   | Return (Some err, k') \<Rightarrow>
                       Return (Some (MacvlanCreateFailed (Name (Attrs macvlan)) err), k')
                   | Return (None, k') \<Rightarrow> Return (None, k'))))"

definition addIPVlan ::
  "string \<Rightarrow> string \<Rightarrow> IPVlanMode \<Rightarrow> kernel \<Rightarrow> (error option \<times> kernel) outcome" where
  "addIPVlan containerNsPAth devName mode k =
     (case GetFromPath k containerNsPAth of
        Inl err \<Rightarrow> Return (Some (NsFromPathFailed containerNsPAth devName err), k)
      | Inr containerNs \<Rightarrow>
          (case LinkByName k devName of
             Inl err \<Rightarrow> Return (Some (ParentNotFound devName err), k)
           | Inr parentLink \<Rightarrow>
               (let ipvlan = IPVlan \<lparr> Index = 0, Name = ''ipvaln-'' @ devName, HardwareAddr = [],
                                      Flags = 0, ParentIndex = Index (Attrs parentLink),
                                      NetNsID = containerNs \<rparr> mode
                in case LinkAdd ipvlan k of
                     Panic \<Rightarrow> Panic
                   | Return (Some err, k') \<Rightarrow>
                       Return (Some (IPVlanCreateFailed (Name (Attrs ipvlan)) err), k')
                   | Return (None, k') \<Rightarrow> Return (None, k'))))"

section \<open>Moving a host interface\<close>

text \<open>
  Modelled from the spec: \<open>NsAttachNetdev\<close> of package pkg/net, which the host-device
  driver calls and whose source file is not among the sources. It is the direct mode of
  the NamespaceMover: the host link is reparented into the target namespace under the
  name of the given attributes, which removes it from the host until it is moved back.
  It fails when the namespace cannot be opened, when the named interface does not
  exist on the host, and when the target namespace already has the name.
\<close>

definition NsAttachNetdev :: "string \<Rightarrow> string \<Rightarrow> LinkAttrs \<Rightarrow> kernel \<Rightarrow> error option \<times> kernel" where
  "NsAttachNetdev hostIfName containerNsPAth attrs k =
     (case GetFromPath k containerNsPAth of
        Inl err \<Rightarrow> (Some (NsFromPathFailed containerNsPAth hostIfName err), k)
      | Inr containerNs \<Rightarrow>
          (case host k hostIfName of
             None \<Rightarrow> (Some (AttachFailed hostIfName containerNsPAth LinkNotFound), k)
           | Some d \<Rightarrow>
               (case netns k containerNs of
                  None \<Rightarrow> (Some (AttachFailed hostIfName containerNsPAth EINVAL), k)
                | Some ifs \<Rightarrow>
                    if ifs (Name attrs) \<noteq> None
                    then (Some (AttachFailed hostIfName containerNsPAth EEXIST), k)
                    else (None, k\<lparr>host := (host k)(hostIfName := None),
                                   netns := (netns k)(containerNs \<mapsto> ifs(Name attrs \<mapsto> d))\<rparr>))))"

text \<open>
  Modelled from the spec: \<open>NsDetachNetdev\<close> of package pkg/net, absent like
  \<open>NsAttachNetdev\<close>. It reparents the link back to the host namespace under the given
  host name. When the target namespace no longer exists the move cannot run and counts
  as done. It fails when the namespace has no interface of that name and when the
  host already has the host name.
\<close>

definition NsDetachNetdev :: "string \<Rightarrow> string \<Rightarrow> string \<Rightarrow> kernel \<Rightarrow> error option \<times> kernel" where
  "NsDetachNetdev containerNsPAth devName outName k =
     (case GetFromPath k containerNsPAth of
        Inl err \<Rightarrow> (None, k)
      | Inr containerNs \<Rightarrow>
          (case netns k containerNs of
             None \<Rightarrow> (None, k)
           | Some ifs \<Rightarrow>
               (case ifs devName of
                  None \<Rightarrow> (Some (DetachFailed devName containerNsPAth LinkNotFound), k)
                | Some d \<Rightarrow>
                    if host k outName \<noteq> None
                    then (Some (DetachFailed devName containerNsPAth EEXIST), k)
                    else (None, k\<lparr>host := (host k)(outName \<mapsto> d),
                                   netns := (netns k)(containerNs \<mapsto> ifs(devName := None))\<rparr>))))"



text \<open>
  Modelled from the spec: the contract of the NamespaceMover,
  \<open>MoveIn(hostInterfaceName, targetNamespace, desiredName, mode)\<close> and
  \<open>MoveOut(targetNamespace, currentName, hostName)\<close>, over the functions above. The
  sub-interface helpers of the sources choose the slave's name themselves. MoveOut
  takes the mode of the MoveIn it reverses.
\<close>

datatype Mode = direct | macvlan MacvlanMode | ipvlan IPVlanMode



section \<open>The host-device driver: pod hooks\<close>

definition ConfigureDeviceForPod ::
  "AllocatedDevice \<Rightarrow> string \<Rightarrow> PodSandbox \<Rightarrow> any \<Rightarrow> kernel \<Rightarrow> error option \<times> kernel" where
  "ConfigureDeviceForPod device networkNamespace podSandbox preparedData k =
     (case preparedData of
        AString hostDeviceName \<Rightarrow>
          (let podInterfaceName = hostDeviceName
           in NsAttachNetdev hostDeviceName networkNamespace
                \<lparr> Index = 0, Name = podInterfaceName, HardwareAddr = [], Flags = 0,
                  ParentIndex = 0, NetNsID = 0 \<rparr> k)
      | _ \<Rightarrow> (Some (InvalidPreparedDataType (dynType preparedData)), k))"

definition CleanupDeviceForPod ::
  "AllocatedDevice \<Rightarrow> string \<Rightarrow> PodSandbox \<Rightarrow> any \<Rightarrow> kernel \<Rightarrow> error option \<times> kernel" where
  "CleanupDeviceForPod device networkNamespace podSandbox preparedData k =
     (case preparedData of
        AString hostDeviceName \<Rightarrow>
          (let podInterfaceName = hostDeviceName
           in NsDetachNetdev networkNamespace podInterfaceName hostDeviceName k)
      | _ \<Rightarrow> (Some (InvalidPreparedDataType (dynType preparedData)), k))"

text \<open>
  Modelled from the spec: the Configuring transition of the SandboxHookDispatcher,
  which belongs to the plugin framework (\<open>driver.NewPlugin\<close>) and is not among the
  sources. It calls the driver's ConfigureDeviceForPod for every allocated device of
  the workload, with the workload's prepared data; at the first failure it moves back
  out, by CleanupDeviceForPod, the devices already moved, the latest first, and then
  reports the failure.
\<close>

fun rollbackDevices ::
  "AllocatedDevice list \<Rightarrow> string \<Rightarrow> PodSandbox \<Rightarrow> any \<Rightarrow> kernel \<Rightarrow> kernel" where
  "rollbackDevices [] networkNamespace podSandbox preparedData k = k"
| "rollbackDevices (device # moved) networkNamespace podSandbox preparedData k =
     rollbackDevices moved networkNamespace podSandbox preparedData
       (snd (CleanupDeviceForPod device networkNamespace podSandbox preparedData k))"

fun configureDevices ::
  "AllocatedDevice list \<Rightarrow> AllocatedDevice list \<Rightarrow> string \<Rightarrow> PodSandbox \<Rightarrow> any \<Rightarrow> kernel
     \<Rightarrow> error option \<times> kernel" where
  "configureDevices [] moved networkNamespace podSandbox preparedData k = (None, k)"
| "configureDevices (device # devices) moved networkNamespace podSandbox preparedData k =
     (case ConfigureDeviceForPod device networkNamespace podSandbox preparedData k of
        (Some err, k') \<Rightarrow> (Some err, rollbackDevices moved networkNamespace podSandbox preparedData k')
      | (None, k') \<Rightarrow>
          configureDevices devices (device # moved) networkNamespace podSandbox preparedData k')"

section \<open>The node-agent driver\<close>

text \<open>
  The file system as the node agent uses it: the content of each file, the files that
  cannot be written, and the writes carried out so far, oldest first.
\<close>

record filesystem =
  files :: "string \<rightharpoonup> string"
  unwritable :: "string \<Rightarrow> bool"
  writes :: "(string \<times> string) list"

text \<open>\<open>os.WriteFile\<close>: creates or truncates the file and writes the data.\<close>

definition WriteFile :: "string \<Rightarrow> string \<Rightarrow> filesystem \<Rightarrow> syserr option \<times> filesystem" where
  "WriteFile name data fs =
     (if unwritable fs name then (Some EACCES, fs)
      else (None, fs\<lparr>files := (files fs)(name \<mapsto> data), writes := writes fs @ [(name, data)]\<rparr>))"

definition resourceFile :: string where
  "resourceFile = ''/tmp/special-node-resource''"

definition nodeAgent_PrepareDevice :: "ResourceClaim \<Rightarrow> filesystem \<Rightarrow> (error + any) \<times> filesystem" where
  "nodeAgent_PrepareDevice claim fs =
     (let podUID = Claim_UID claim
      in case WriteFile resourceFile podUID fs of
           (Some err, fs') \<Rightarrow> (Inl (WritePodUIDFailed err), fs')
         | (None, fs') \<Rightarrow> (Inr (AString podUID), fs'))"

definition nodeAgent_UnprepareDevice :: "NamespacedObject \<Rightarrow> filesystem \<Rightarrow> error option \<times> filesystem" where
  "nodeAgent_UnprepareDevice claim fs =
     (case WriteFile resourceFile [] fs of
        (Some err, fs') \<Rightarrow> (Some (Sys err), fs')
      | (None, fs') \<Rightarrow> (None, fs'))"

section \<open>The allocation coordinator\<close>

text \<open>\<open>driver.SharedState\<close> of pkg/driver/driver.go; both maps are keyed by the pod's UID.\<close>

record SharedState =
  PodDeviceConfig :: "string \<rightharpoonup> AllocatedDevice list"
  PreparedData :: "string \<rightharpoonup> any"

text \<open>
  Modelled from the spec: \<open>UnprepareDevice(workloadUID)\<close> of the AllocationCoordinator,
  the part of the plugin framework that manages the shared state and is not among the
  sources. If no prepared state exists for the UID it returns success, already clean;
  otherwise it calls the driver's UnprepareDevice and, on success, removes the entry. The
  driver's function is a parameter, over the state \<open>'w\<close> that the driver works on.
\<close>

definition UnprepareDevice ::
  "(NamespacedObject \<Rightarrow> 'w \<Rightarrow> error option \<times> 'w) \<Rightarrow> string \<Rightarrow> NamespacedObject
     \<Rightarrow> SharedState \<Rightarrow> 'w \<Rightarrow> error option \<times> SharedState \<times> 'w" where
  "UnprepareDevice driverUnprepare workloadUID claim st w =
     (case PreparedData st workloadUID of
        None \<Rightarrow> (None, st, w)
      | Some preparedData \<Rightarrow>
          (case driverUnprepare claim w of
             (Some err, w') \<Rightarrow> (Some err, st, w')
           | (None, w') \<Rightarrow>
               (None, st\<lparr>PodDeviceConfig := (PodDeviceConfig st)(workloadUID := None),
                         PreparedData := (PreparedData st)(workloadUID := None)\<rparr>, w')))"

text \<open>The two drivers of the sources as arguments of the coordinator.\<close>

definition hostdeviceUnprepare :: "NamespacedObject \<Rightarrow> kernel \<Rightarrow> error option \<times> kernel" where
  "hostdeviceUnprepare claim k = (hostdevice_UnprepareDevice claim, k)"

section \<open>The sample reconciler\<close>

definition controllerName :: string where
  "controllerName = ''sample-controller''"

text \<open>
  The reconciler holds a client of the cluster API; of the client only the deletion of
  a ResourceSlice by name is used here. \<open>'c\<close> is the state of the cluster.
\<close>

record 'c sampleReconciler =
  ResourceSlices_Delete :: "string \<Rightarrow> 'c \<Rightarrow> apierr option \<times> 'c"

definition getResourceSliceName :: "ResourceClaim \<Rightarrow> string" where
  "getResourceSliceName claim = controllerName @ ''-'' @ Claim_UID claim"

definition Delete :: "'c sampleReconciler \<Rightarrow> ResourceClaim \<Rightarrow> 'c \<Rightarrow> error option \<times> 'c" where
  "Delete c claim cluster =
     (let sliceName = getResourceSliceName claim
      in case ResourceSlices_Delete c sliceName cluster of
           (Some err, cluster') \<Rightarrow>
             if \<not> IsNotFound err then (Some (DeleteSliceFailed sliceName err), cluster')
             else (None, cluster')
         | (None, cluster') \<Rightarrow> (None, cluster'))"

text \<open>
  An API server that holds the names of the existing ResourceSlices: deleting an
  existing slice removes it, deleting an absent one answers not-found.
\<close>

definition apiserver :: "string set sampleReconciler" where
  "apiserver =
     \<lparr> ResourceSlices_Delete =
         (\<lambda>name slices. if name \<in> slices then (None, slices - {name}) else (Some NotFound, slices)) \<rparr>"

section \<open>Notions used by the properties\<close>

text \<open>The filtering rule of the device registry, in the specification's words.\<close>

definition administratively_down :: "LinkAttrs \<Rightarrow> bool" where
  "administratively_down a = (\<not> bit (Flags a) 0)"

definition is_loopback :: "LinkAttrs \<Rightarrow> bool" where
  "is_loopback a = bit (Flags a) 2"

definition has_virtual_prefix :: "string \<Rightarrow> bool" where
  "has_virtual_prefix n =
     ((\<exists>r. n = ''veth'' @ r) \<or> (\<exists>r. n = ''docker'' @ r) \<or> (\<exists>r. n = ''cni'' @ r))"

definition eligible :: "LinkAttrs \<Rightarrow> bool" where
  "eligible a = (\<not> administratively_down a \<and> \<not> is_loopback a \<and> \<not> has_virtual_prefix (Name a))"

text \<open>The slave that addMacVlan and addIPVlan ask the kernel for, as the kernel keeps it.\<close>

definition macvlanSlave :: "netdev \<Rightarrow> MacvlanMode \<Rightarrow> netdev" where
  "macvlanSlave parent m =
     \<lparr> dev_Index = 0, dev_HardwareAddr = [], dev_Flags = 0,
       dev_ParentIndex = dev_Index parent, dev_Kind = MacvlanSlave m \<rparr>"

definition ipvlanSlave :: "netdev \<Rightarrow> IPVlanMode \<Rightarrow> netdev" where
  "ipvlanSlave parent m =
     \<lparr> dev_Index = 0, dev_HardwareAddr = [], dev_Flags = 0,
       dev_ParentIndex = dev_Index parent, dev_Kind = IPVlanSlave m \<rparr>"

text \<open>The parent has an active slave of the given kind.\<close>

definition activePort :: "kernel \<Rightarrow> netdev \<Rightarrow> PortKind \<Rightarrow> bool" where
  "activePort k parent pk =
     (case ports k (dev_Index parent) of None \<Rightarrow> False | Some (pk', n) \<Rightarrow> pk' = pk)"

text \<open>\<open>strings.Contains\<close>, to ask whether an error message names an interface.\<close>

fun Contains :: "string \<Rightarrow> string \<Rightarrow> bool" where
  "Contains [] substr = (substr = [])"
| "Contains (c # s) substr = (HasPrefix (c # s) substr \<or> Contains s substr)"

text \<open>PrepareDevice of the host-device driver as a step on the kernel state, which it never reads or writes.\<close>

definition hostdevicePrepare :: "ResourceClaim \<Rightarrow> kernel \<Rightarrow> (error + any) \<times> kernel" where
  "hostdevicePrepare claim k = (hostdevice_PrepareDevice claim, k)"

section \<open>Example states\<close>

definition lo_link :: Link where
  "lo_link = Device \<lparr> Index = 1, Name = ''lo'', HardwareAddr = [], Flags = 37,
                      ParentIndex = 0, NetNsID = 0 \<rparr>"

definition eth0_down :: Link where
  "eth0_down = Device \<lparr> Index = 2, Name = ''eth0'', HardwareAddr = [0x52, 0x54, 0, 0x12, 0x34, 0x56],
                        Flags = 18, ParentIndex = 0, NetNsID = 0 \<rparr>"

definition eth1_up :: Link where
  "eth1_up = Device \<lparr> Index = 3, Name = ''eth1'', HardwareAddr = [0x52, 0x54, 0, 0xab, 0xcd, 0xef],
                      Flags = 19, ParentIndex = 0, NetNsID = 0 \<rparr>"

definition veth_up :: Link where
  "veth_up = Device \<lparr> Index = 4, Name = ''veth12ab'', HardwareAddr = [2, 0, 0, 0, 0, 1],
                      Flags = 19, ParentIndex = 0, NetNsID = 0 \<rparr>"

definition eth0 :: netdev where
  "eth0 = \<lparr> dev_Index = 2, dev_HardwareAddr = [0x52, 0x54, 0, 0x12, 0x34, 0x56], dev_Flags = 19,
            dev_ParentIndex = 0, dev_Kind = PlainDevice \<rparr>"

definition eth1 :: netdev where
  "eth1 = \<lparr> dev_Index = 3, dev_HardwareAddr = [0x52, 0x54, 0, 0xab, 0xcd, 0xef], dev_Flags = 19,
            dev_ParentIndex = 0, dev_Kind = PlainDevice \<rparr>"

definition pod1_ns :: string where
  "pod1_ns = ''/run/netns/pod1''"

text \<open>A host with \<open>eth0\<close> and \<open>eth1\<close> up and one empty pod namespace.\<close>

definition pod_kernel :: kernel where
  "pod_kernel =
     \<lparr> host = [''eth0'' \<mapsto> eth0, ''eth1'' \<mapsto> eth1], nspath = [pod1_ns \<mapsto> 7],
       netns = [7 \<mapsto> Map.empty], ports = Map.empty \<rparr>"

text \<open>The same host after a macvlan slave, or an ipvlan slave, of \<open>eth0\<close> went to the pod.\<close>

definition macvlan_kernel :: kernel where
  "macvlan_kernel =
     \<lparr> host = [''eth0'' \<mapsto> eth0, ''eth1'' \<mapsto> eth1], nspath = [pod1_ns \<mapsto> 7],
       netns = [7 \<mapsto> [''mavlan-eth0'' \<mapsto> macvlanSlave eth0 2]],
       ports = [2 \<mapsto> (MacvlanPort, 1)] \<rparr>"

definition ipvlan_kernel :: kernel where
  "ipvlan_kernel =
     \<lparr> host = [''eth0'' \<mapsto> eth0, ''eth1'' \<mapsto> eth1], nspath = [pod1_ns \<mapsto> 7],
       netns = [7 \<mapsto> [''ipvaln-eth0'' \<mapsto> ipvlanSlave eth0 1]],
       ports = [2 \<mapsto> (IPVlanPort, 1)] \<rparr>"

definition pod1 :: PodSandbox where
  "pod1 = \<lparr> Pod_Name = ''pod1'', Pod_Namespace = ''default'', Pod_Uid = ''uid-b'' \<rparr>"

definition dev_a :: AllocatedDevice where
  "dev_a = \<lparr> AD_Name = ''eth1'', AD_Attributes = Map.empty, PoolName = ''node-1'', Request = ''req-0'' \<rparr>"

definition dev_b :: AllocatedDevice where
  "dev_b = \<lparr> AD_Name = ''eth0'', AD_Attributes = Map.empty, PoolName = ''node-1'', Request = ''req-1'' \<rparr>"

definition unallocated_claim :: ResourceClaim where
  "unallocated_claim = \<lparr> Claim_Name = ''claim-a'', Claim_UID = ''uid-a'', Allocation = None \<rparr>"

definition eth1_result :: DeviceRequestAllocationResult where
  "eth1_result = \<lparr> Result_Request = ''req-0'', Result_Driver = ''hostdevice.k8s.io'',
                     Result_Pool = ''node-1'', Result_Device = ''eth1'' \<rparr>"

definition eth1_claim :: ResourceClaim where
  "eth1_claim = \<lparr> Claim_Name = ''claim-b'', Claim_UID = ''uid-b'', Allocation = Some [eth1_result] \<rparr>"

definition claim_ref :: NamespacedObject where
  "claim_ref = \<lparr> Object_Name = ''claim-b'', Object_Namespace = ''default'', Object_UID = ''claim-uid-b'' \<rparr>"

definition fresh_fs :: filesystem where
  "fresh_fs = \<lparr> files = Map.empty, unwritable = (\<lambda>name. False), writes = [] \<rparr>"

definition prepared_state :: SharedState where
  "prepared_state =
     \<lparr> PodDeviceConfig = [''uid-b'' \<mapsto> [dev_a]], PreparedData = [''uid-b'' \<mapsto> AString ''eth1''] \<rparr>"

section \<open>Auxiliary facts\<close>

lemmas move_defs = NsAttachNetdev_def NsDetachNetdev_def GetFromPath_def pod_kernel_def pod1_ns_def
  ConfigureDeviceForPod_def CleanupDeviceForPod_def Let_def

lemmas link_defs = GetFromPath_def LinkByName_def LinkAdd_def createLink_def IFNAMSIZ_def
  link_of_def netdev_of_def macvlanSlave_def ipvlanSlave_def eth0_def pod1_ns_def Let_def
  word_le_nat_alt

subsection \<open>The filter of GetDevices\<close>

lemma appendDevices_filter:
  "appendDevices links devices = devices @ map (mkDevice \<circ> Attrs) (filter (\<lambda>l. \<not> skipped (Attrs l)) links)"
  by (induction links arbitrary: devices) auto

lemma HasPrefix_iff: "HasPrefix s p \<longleftrightarrow> (\<exists>r. s = p @ r)"
proof
  assume "HasPrefix s p"
  then have "s = p @ drop (length p) s"
    unfolding HasPrefix_def by (metis append_take_drop_id)
  then show "\<exists>r. s = p @ r" ..
next
  assume "\<exists>r. s = p @ r"
  then show "HasPrefix s p"
    unfolding HasPrefix_def by auto
qed

lemma bit_four: "bit (4 :: 64 word) n \<longleftrightarrow> n = 2"
proof -
  have "(4 :: 64 word) = push_bit 2 1" by simp
  then have "bit (4 :: 64 word) n \<longleftrightarrow> bit (push_bit 2 (1 :: 64 word)) n" by simp
  also have "\<dots> \<longleftrightarrow> n = 2"
    by (auto simp add: bit_push_bit_iff bit_1_iff simp del: push_bit_of_1)
  finally show ?thesis .
qed

lemma and_single_bit:
  fixes w m :: "64 word" and k :: nat
  assumes m: "\<forall>n. bit m n = (n = k)"
  shows "(w AND m \<noteq> 0) = bit w k"
proof (cases "bit w k")
  case True
  then have "bit (w AND m) k" using m by (simp add: bit_and_iff)
  then have "w AND m \<noteq> 0" by auto
  with True show ?thesis by simp
next
  case False
  have "w AND m = 0"
  proof (rule bit_eqI)
    fix n
    show "bit (w AND m) n = bit (0 :: 64 word) n"
      using False m by (auto simp add: bit_and_iff)
  qed
  with False show ?thesis by simp
qed

lemma flag_loopback_bit: "((w :: 64 word) AND FlagLoopback \<noteq> 0) = bit w 2"
  unfolding FlagLoopback_def by (rule and_single_bit) (rule allI, rule bit_four)

lemma flag_up_bit: "((w :: 64 word) AND FlagUp = 0) = (\<not> bit w 0)"
proof -
  have "(w AND 1 \<noteq> 0) = bit w 0"
    by (rule and_single_bit) (simp add: bit_1_iff)
  then show ?thesis unfolding FlagUp_def by blast
qed

lemma skipped_iff_not_eligible: "skipped a \<longleftrightarrow> \<not> eligible a"
  unfolding skipped_def eligible_def administratively_down_def is_loopback_def has_virtual_prefix_def
  by (auto simp add: flag_up_bit flag_loopback_bit HasPrefix_iff)

subsection \<open>Adding a link\<close>

lemma Index_link_of [simp]: "Index (Attrs (link_of n d)) = dev_Index d"
  by (cases "dev_Kind d") (simp_all add: link_of_def)

subsection \<open>Moving a link in and out\<close>

lemma NsAttachNetdev_failure: "NsAttachNetdev h p a k = (Some e, k') \<Longrightarrow> k' = k"
  unfolding NsAttachNetdev_def
  by (auto split: sum.splits option.splits if_splits)

lemma NsAttachNetdev_success:
  assumes "NsAttachNetdev h p a k = (None, k')"
  shows "\<exists>ns d ifs. nspath k p = Some ns \<and> host k h = Some d \<and> netns k ns = Some ifs
           \<and> ifs (Name a) = None
           \<and> k' = k\<lparr>host := (host k)(h := None), netns := (netns k)(ns \<mapsto> ifs(Name a \<mapsto> d))\<rparr>"
  using assms unfolding NsAttachNetdev_def GetFromPath_def
  by (auto split: sum.splits option.splits if_splits)

lemma attach_then_detach:
  assumes "NsAttachNetdev h p a k = (None, k')"
  shows "NsDetachNetdev p (Name a) h k' = (None, k)"
proof -
  from NsAttachNetdev_success [OF assms] obtain ns d ifs where
    ns: "nspath k p = Some ns" and d: "host k h = Some d" and ifs: "netns k ns = Some ifs"
    and free: "ifs (Name a) = None"
    and k': "k' = k\<lparr>host := (host k)(h := None), netns := (netns k)(ns \<mapsto> ifs(Name a \<mapsto> d))\<rparr>"
    by blast
  have 1: "ifs(Name a := None) = ifs"
    using free by (auto simp add: fun_eq_iff)
  have 2: "(host k)(h \<mapsto> d) = host k"
    using d by (auto simp add: fun_eq_iff)
  have 3: "(netns k)(ns \<mapsto> ifs) = netns k"
    using ifs by (auto simp add: fun_eq_iff)
  show ?thesis
    unfolding NsDetachNetdev_def GetFromPath_def k'
    using ns by (simp add: 1 2 3)
qed

lemma Configure_failure:
  "ConfigureDeviceForPod dev ns pod pd k = (Some e, k') \<Longrightarrow> k' = k"
  unfolding ConfigureDeviceForPod_def
  by (cases pd) (auto dest: NsAttachNetdev_failure)

lemma Configure_again_fails:
  assumes "ConfigureDeviceForPod dev ns pod pd k = (None, k1)"
  shows "\<exists>e. ConfigureDeviceForPod dev' ns pod pd k1 = (Some e, k1)"
proof (cases pd)
  case (AString s)
  with assms have a: "NsAttachNetdev s ns
      \<lparr> Index = 0, Name = s, HardwareAddr = [], Flags = 0, ParentIndex = 0, NetNsID = 0 \<rparr> k = (None, k1)"
    by (simp add: ConfigureDeviceForPod_def)
  from NsAttachNetdev_success [OF a] have "nspath k1 ns \<noteq> None" and "host k1 s = None"
    by auto
  then show ?thesis
    using AString by (auto simp add: ConfigureDeviceForPod_def NsAttachNetdev_def GetFromPath_def)
qed (use assms in \<open>simp_all add: ConfigureDeviceForPod_def\<close>)

lemma Configure_then_Cleanup:
  assumes "ConfigureDeviceForPod dev ns pod pd k = (None, k1)"
  shows "CleanupDeviceForPod dev' ns pod pd k1 = (None, k)"
proof (cases pd)
  case (AString s)
  with assms have a: "NsAttachNetdev s ns
      \<lparr> Index = 0, Name = s, HardwareAddr = [], Flags = 0, ParentIndex = 0, NetNsID = 0 \<rparr> k = (None, k1)"
    by (simp add: ConfigureDeviceForPod_def)
  from attach_then_detach [OF a] show ?thesis
    using AString by (simp add: CleanupDeviceForPod_def)
qed (use assms in \<open>simp_all add: ConfigureDeviceForPod_def\<close>)

section \<open>The claims\<close>

subsection \<open>C1: preparing twice\<close>

text \<open>
  C1, as the drivers have it. For every claim, two calls of PrepareDevice in sequence
  return the same result. The host-device driver leaves the kernel state untouched in
  both calls. The node-agent driver has no record of an earlier call: when the write
  succeeds, each of the two calls writes the pod UID to the resource file, so the write
  is carried out again by the second call, which leaves the file's content as the first
  call left it; when the write is refused, neither call changes anything.
\<close>

theorem PrepareDevice_twice:
  "(case hostdevicePrepare claim k of (r1, k1) \<Rightarrow>
      case hostdevicePrepare claim k1 of (r2, k2) \<Rightarrow> r2 = r1 \<and> k1 = k \<and> k2 = k)
   \<and> (case nodeAgent_PrepareDevice claim fs of (r1, fs1) \<Rightarrow>
        case nodeAgent_PrepareDevice claim fs1 of (r2, fs2) \<Rightarrow>
          r2 = r1 \<and> files fs2 = files fs1
          \<and> (r1 = Inr (AString (Claim_UID claim)) \<longrightarrow>
                writes fs1 = writes fs @ [(resourceFile, Claim_UID claim)]
                \<and> writes fs2 = writes fs1 @ [(resourceFile, Claim_UID claim)])
          \<and> (r1 \<noteq> Inr (AString (Claim_UID claim)) \<longrightarrow> fs1 = fs \<and> fs2 = fs))"
  by (simp add: hostdevicePrepare_def nodeAgent_PrepareDevice_def WriteFile_def Let_def)

theorem PrepareDevice_twice_witness:
  "(case hostdevicePrepare eth1_claim pod_kernel of (r1, k1) \<Rightarrow>
      case hostdevicePrepare eth1_claim k1 of (r2, k2) \<Rightarrow>
        r1 = Inr (AString ''eth1'') \<and> r2 = r1 \<and> k1 = pod_kernel \<and> k2 = pod_kernel)
   \<and> (case nodeAgent_PrepareDevice eth1_claim fresh_fs of (r1, fs1) \<Rightarrow>
        case nodeAgent_PrepareDevice eth1_claim fs1 of (r2, fs2) \<Rightarrow>
          r1 = Inr (AString ''uid-b'') \<and> r2 = r1 \<and> files fs2 = files fs1
          \<and> writes fs1 = [(resourceFile, ''uid-b'')]
          \<and> writes fs2 = [(resourceFile, ''uid-b''), (resourceFile, ''uid-b'')])"
  using PrepareDevice_twice [where claim = eth1_claim and k = pod_kernel and fs = fresh_fs]
  by (simp add: hostdevicePrepare_def hostdevice_PrepareDevice_def nodeAgent_PrepareDevice_def
      WriteFile_def eth1_claim_def eth1_result_def fresh_fs_def Let_def)

text \<open>
  The claim as stated fails on the node-agent driver: for a claim with a bound device,
  on a fresh file system, both calls succeed with the same prepared data, and the
  second call writes the resource file once more.
\<close>

theorem PrepareDevice_twice_counterexample:
  "fst (nodeAgent_PrepareDevice eth1_claim fresh_fs) = Inr (AString ''uid-b'')
   \<and> writes (snd (nodeAgent_PrepareDevice eth1_claim fresh_fs)) = [(resourceFile, ''uid-b'')]
   \<and> fst (nodeAgent_PrepareDevice eth1_claim (snd (nodeAgent_PrepareDevice eth1_claim fresh_fs)))
       = Inr (AString ''uid-b'')
   \<and> writes (snd (nodeAgent_PrepareDevice eth1_claim (snd (nodeAgent_PrepareDevice eth1_claim fresh_fs))))
       = [(resourceFile, ''uid-b''), (resourceFile, ''uid-b'')]"
  by (simp add: nodeAgent_PrepareDevice_def WriteFile_def eth1_claim_def fresh_fs_def Let_def)

subsection \<open>C2: the other kind of slave on a parent\<close>

text \<open>
  C2, as the helpers have it. When the parent already has an active slave of one kind
  and the target namespace can be opened, adding a slave of the other kind (for a
  macvlan slave, with one of the six modes the library knows) fails and changes
  nothing of the kernel state. The error is the helper's link-creation error: it names
  the interface that was to be created and wraps the error that LinkAdd returned.
\<close>

theorem other_kind_refused:
  assumes "host k d = Some parent" and "nspath k p = Some h"
  shows "(activePort k parent MacvlanPort \<longrightarrow>
            (\<exists>err. addIPVlan p d m k = Return (Some (IPVlanCreateFailed (''ipvaln-'' @ d) err), k)))
       \<and> (activePort k parent IPVlanPort \<and> m' < 6 \<longrightarrow>
            (\<exists>err. addMacVlan p d m' k = Return (Some (MacvlanCreateFailed (''mavlan-'' @ d) err), k)))"
  using assms
  unfolding activePort_def addIPVlan_def addMacVlan_def GetFromPath_def LinkByName_def LinkAdd_def
    createLink_def
  by (auto simp add: Let_def not_le split: option.splits)

theorem other_kind_refused_witness:
  "host macvlan_kernel ''eth0'' = Some eth0 \<and> nspath macvlan_kernel pod1_ns = Some 7
   \<and> activePort macvlan_kernel eth0 MacvlanPort
   \<and> addIPVlan pod1_ns ''eth0'' 1 macvlan_kernel
       = Return (Some (IPVlanCreateFailed ''ipvaln-eth0'' EBUSY), macvlan_kernel)
   \<and> host ipvlan_kernel ''eth0'' = Some eth0 \<and> nspath ipvlan_kernel pod1_ns = Some 7
   \<and> activePort ipvlan_kernel eth0 IPVlanPort
   \<and> addMacVlan pod1_ns ''eth0'' 2 ipvlan_kernel
       = Return (Some (MacvlanCreateFailed ''mavlan-eth0'' EBUSY), ipvlan_kernel)"
proof -
  have a: "host macvlan_kernel ''eth0'' = Some eth0" "nspath macvlan_kernel pod1_ns = Some 7"
    "activePort macvlan_kernel eth0 MacvlanPort"
    by (simp_all add: macvlan_kernel_def activePort_def eth0_def)
  have b: "host ipvlan_kernel ''eth0'' = Some eth0" "nspath ipvlan_kernel pod1_ns = Some 7"
    "activePort ipvlan_kernel eth0 IPVlanPort"
    by (simp_all add: ipvlan_kernel_def activePort_def eth0_def)
  from other_kind_refused [OF a(1,2), of 1] a(3)
  obtain e1 where e1: "addIPVlan pod1_ns ''eth0'' 1 macvlan_kernel
       = Return (Some (IPVlanCreateFailed ''ipvaln-eth0'' e1), macvlan_kernel)"
    by auto
  have "addIPVlan pod1_ns ''eth0'' 1 macvlan_kernel
       = Return (Some (IPVlanCreateFailed ''ipvaln-eth0'' EBUSY), macvlan_kernel)"
    by (simp add: addIPVlan_def macvlan_kernel_def link_defs)
  moreover from other_kind_refused [OF b(1,2), of _ 2] b(3)
  obtain e2 where e2: "addMacVlan pod1_ns ''eth0'' 2 ipvlan_kernel
       = Return (Some (MacvlanCreateFailed ''mavlan-eth0'' e2), ipvlan_kernel)"
    by auto
  have "addMacVlan pod1_ns ''eth0'' 2 ipvlan_kernel
       = Return (Some (MacvlanCreateFailed ''mavlan-eth0'' EBUSY), ipvlan_kernel)"
    by (simp add: addMacVlan_def ipvlan_kernel_def link_defs)
  ultimately show ?thesis using a b e1 e2 by simp
qed

text \<open>
  The claim as stated fails: with the macvlan slave \<open>mavlan-eth0\<close> active on \<open>eth0\<close>,
  adding an ipvlan slave returns the link-creation error, whose text names the new
  interface \<open>ipvaln-eth0\<close> and not the existing slave.
\<close>

theorem other_kind_refused_counterexample:
  "netns macvlan_kernel 7 = Some [''mavlan-eth0'' \<mapsto> macvlanSlave eth0 2]
   \<and> addIPVlan pod1_ns ''eth0'' 1 macvlan_kernel
       = Return (Some (IPVlanCreateFailed ''ipvaln-eth0'' EBUSY), macvlan_kernel)
   \<and> Error (IPVlanCreateFailed ''ipvaln-eth0'' EBUSY)
       = ''failed to create the ipvaln-eth0 ipvlan interface: device or resource busy''
   \<and> \<not> Contains (Error (IPVlanCreateFailed ''ipvaln-eth0'' EBUSY)) ''mavlan-eth0''"
  by (simp add: addIPVlan_def macvlan_kernel_def link_defs HasPrefix_def)

subsection \<open>C3: rollback of a failed configuration\<close>

text \<open>
  C3. When the Configuring transition of a workload reports a failure, every device
  moved so far has been moved back out before: the kernel state, the host namespace
  with it, is what it was before the transition began. This holds for any number of
  devices, two or more among them.
\<close>

theorem configure_rollback:
  assumes "configureDevices devices [] ns pod pd k = (Some e, k')"
  shows "k' = k"
proof (cases devices)
  case Nil
  with assms show ?thesis by simp
next
  case (Cons d1 rest)
  note devices = this
  show ?thesis
  proof (cases "ConfigureDeviceForPod d1 ns pod pd k")
    case (Pair r k1)
    show ?thesis
    proof (cases r)
      case (Some e1)
      with Pair have "k1 = k" by (auto dest: Configure_failure)
      with assms devices Pair Some show ?thesis by simp
    next
      case None
      note first = Pair [unfolded None]
      show ?thesis
      proof (cases rest)
        case Nil
        with assms devices first show ?thesis by simp
      next
        case (Cons d2 rest')
        from Configure_again_fails [OF first] obtain e2
          where second: "ConfigureDeviceForPod d2 ns pod pd k1 = (Some e2, k1)" by blast
        from Configure_then_Cleanup [OF first]
        have undone: "CleanupDeviceForPod d1 ns pod pd k1 = (None, k)" .
        from assms devices Cons first second undone show ?thesis by simp
      qed
    qed
  qed
qed

text \<open>
  Two devices: the first move takes \<open>eth1\<close> off the host, the second fails, and the
  transition ends with the failure and the state it started from.
\<close>

theorem configure_rollback_witness:
  "fst (ConfigureDeviceForPod dev_a pod1_ns pod1 (AString ''eth1'') pod_kernel) = None
   \<and> host (snd (ConfigureDeviceForPod dev_a pod1_ns pod1 (AString ''eth1'') pod_kernel)) ''eth1'' = None
   \<and> fst (configureDevices [dev_a, dev_b] [] pod1_ns pod1 (AString ''eth1'') pod_kernel)
       = Some (AttachFailed ''eth1'' pod1_ns LinkNotFound)
   \<and> snd (configureDevices [dev_a, dev_b] [] pod1_ns pod1 (AString ''eth1'') pod_kernel) = pod_kernel"
proof -
  let ?run = "configureDevices [dev_a, dev_b] [] pod1_ns pod1 (AString ''eth1'') pod_kernel"
  have a: "fst (ConfigureDeviceForPod dev_a pod1_ns pod1 (AString ''eth1'') pod_kernel) = None"
    by (simp add: move_defs)
  have b: "host (snd (ConfigureDeviceForPod dev_a pod1_ns pod1 (AString ''eth1'') pod_kernel)) ''eth1'' = None"
    by (simp add: move_defs)
  have c: "fst ?run = Some (AttachFailed ''eth1'' pod1_ns LinkNotFound)"
    by (simp add: move_defs)
  then have "?run = (Some (AttachFailed ''eth1'' pod1_ns LinkNotFound), snd ?run)"
    by (simp add: prod_eq_iff)
  then have "snd ?run = pod_kernel" by (rule configure_rollback)
  with a b c show ?thesis by simp
qed

subsection \<open>C4: moving in and out again\<close>




subsection \<open>C5: a claim without allocated devices\<close>

text \<open>
  C5. PrepareDevice of the host-device driver fails with the error that reports the
  missing allocation when the claim has no allocation or an empty list of results; the
  error is the result of the one case distinction the function makes, with no retry.
  For a claim with at least one bound device the function does not take this branch:
  it returns the name of the first bound device.
\<close>

theorem PrepareDevice_no_allocation:
  "(Allocation claim = None \<or> Allocation claim = Some [] \<longrightarrow>
      hostdevice_PrepareDevice claim = Inl (NoAllocatedDevices (Claim_Name claim)))
   \<and> (\<forall>r rs. Allocation claim = Some (r # rs) \<longrightarrow>
          hostdevice_PrepareDevice claim = Inr (AString (Result_Device r)))"
  by (auto simp add: hostdevice_PrepareDevice_def)

theorem PrepareDevice_no_allocation_witness:
  "Allocation unallocated_claim = None
   \<and> hostdevice_PrepareDevice unallocated_claim = Inl (NoAllocatedDevices ''claim-a'')
   \<and> Allocation eth1_claim = Some [eth1_result]
   \<and> hostdevice_PrepareDevice eth1_claim = Inr (AString ''eth1'')"
  using PrepareDevice_no_allocation [of unallocated_claim]
    PrepareDevice_no_allocation [of eth1_claim]
  by (simp add: unallocated_claim_def eth1_claim_def eth1_result_def)

subsection \<open>C6: unpreparing\<close>

text \<open>
  C6. For a workload UID without prepared state, UnprepareDevice returns success and
  carries out no operation: the shared state and the state the driver works on stay as
  they are, with either driver. When UnprepareDevice succeeds, the UID has no prepared
  state afterwards; with the host-device driver the kernel state is untouched then too.
\<close>

theorem UnprepareDevice_coordinator:
  "(PreparedData st uid = None \<longrightarrow>
      UnprepareDevice hostdeviceUnprepare uid claim st k = (None, st, k)
      \<and> UnprepareDevice nodeAgent_UnprepareDevice uid claim st fs = (None, st, fs))
   \<and> (UnprepareDevice hostdeviceUnprepare uid claim st k = (None, st', k') \<longrightarrow>
        PreparedData st' uid = None \<and> k' = k)
   \<and> (UnprepareDevice nodeAgent_UnprepareDevice uid claim st fs = (None, st'', fs') \<longrightarrow>
        PreparedData st'' uid = None)"
  by (auto simp add: UnprepareDevice_def hostdeviceUnprepare_def hostdevice_UnprepareDevice_def
      split: option.splits prod.splits)

theorem UnprepareDevice_coordinator_witness:
  "PreparedData prepared_state ''uid-x'' = None
   \<and> UnprepareDevice hostdeviceUnprepare ''uid-x'' claim_ref prepared_state pod_kernel
       = (None, prepared_state, pod_kernel)
   \<and> UnprepareDevice nodeAgent_UnprepareDevice ''uid-x'' claim_ref prepared_state fresh_fs
       = (None, prepared_state, fresh_fs)
   \<and> PreparedData prepared_state ''uid-b'' = Some (AString ''eth1'')
   \<and> fst (UnprepareDevice hostdeviceUnprepare ''uid-b'' claim_ref prepared_state pod_kernel) = None
   \<and> PreparedData (fst (snd (UnprepareDevice hostdeviceUnprepare ''uid-b'' claim_ref
         prepared_state pod_kernel))) ''uid-b'' = None
   \<and> fst (UnprepareDevice nodeAgent_UnprepareDevice ''uid-b'' claim_ref prepared_state fresh_fs) = None
   \<and> PreparedData (fst (snd (UnprepareDevice nodeAgent_UnprepareDevice ''uid-b'' claim_ref
         prepared_state fresh_fs))) ''uid-b'' = None"
proof -
  let ?h = "UnprepareDevice hostdeviceUnprepare ''uid-b'' claim_ref prepared_state pod_kernel"
  let ?n = "UnprepareDevice nodeAgent_UnprepareDevice ''uid-b'' claim_ref prepared_state fresh_fs"
  have absent: "PreparedData prepared_state ''uid-x'' = None"
    and present: "PreparedData prepared_state ''uid-b'' = Some (AString ''eth1'')"
    by (simp_all add: prepared_state_def)
  have h: "fst ?h = None"
    by (simp add: UnprepareDevice_def hostdeviceUnprepare_def hostdevice_UnprepareDevice_def
        prepared_state_def)
  have n: "fst ?n = None"
    by (simp add: UnprepareDevice_def nodeAgent_UnprepareDevice_def WriteFile_def
        prepared_state_def fresh_fs_def)
  have h': "?h = (None, fst (snd ?h), snd (snd ?h))" using h by (simp add: prod_eq_iff)
  have n': "?n = (None, fst (snd ?n), snd (snd ?n))" using n by (simp add: prod_eq_iff)
  note first = UnprepareDevice_coordinator [where st = prepared_state and uid = "''uid-x''"
      and claim = claim_ref and k = pod_kernel and fs = fresh_fs, THEN conjunct1, rule_format, OF absent]
  note second = UnprepareDevice_coordinator [where st = prepared_state and uid = "''uid-b''"
      and claim = claim_ref and k = pod_kernel and fs = fresh_fs,
      THEN conjunct2, THEN conjunct1, rule_format, OF h']
  note third = UnprepareDevice_coordinator [where st = prepared_state and uid = "''uid-b''"
      and claim = claim_ref and k = pod_kernel and fs = fresh_fs,
      THEN conjunct2, THEN conjunct2, rule_format, OF n']
  from first second third absent present h n show ?thesis by simp
qed

subsection \<open>C7: the devices GetDevices returns\<close>

text \<open>
  C7. Whatever list of links the host reports, GetDevices returns no error and exactly
  the devices built from the links that are not administratively down, not loopback and
  whose name has none of the prefixes veth, docker, cni, in the order of the list. For
  the host whose only interfaces are the loopback \<open>lo\<close> and the administratively-down
  \<open>eth0\<close>, the result is the empty list.
\<close>

theorem GetDevices_filtering:
  "GetDevices (Inr links) = Inr (map (mkDevice \<circ> Attrs) (filter (\<lambda>l. eligible (Attrs l)) links))
   \<and> GetDevices (Inr [lo_link, eth0_down]) = Inr []"
proof -
  have "appendDevices links [] = map (mkDevice \<circ> Attrs) (filter (\<lambda>l. eligible (Attrs l)) links)"
    by (simp add: appendDevices_filter skipped_iff_not_eligible)
  moreover have "skipped (Attrs lo_link)"
    by (simp add: skipped_def lo_link_def FlagLoopback_def)
  moreover have "skipped (Attrs eth0_down)"
    by (simp add: skipped_def eth0_down_def FlagUp_def)
  ultimately show ?thesis
    by (simp add: GetDevices_def)
qed

theorem GetDevices_filtering_witness:
  "GetDevices (Inr [lo_link, eth1_up, veth_up, eth0_down]) = Inr [mkDevice (Attrs eth1_up)]
   \<and> Device_Name (mkDevice (Attrs eth1_up)) = ''eth1''
   \<and> Device_Attributes (mkDevice (Attrs eth1_up)) ''mac-address''
       = Some (StringValue ''52:54:00:ab:cd:ef'')"
proof -
  have "\<not> eligible (Attrs lo_link)"
    unfolding skipped_iff_not_eligible [symmetric]
    by (simp add: skipped_def lo_link_def FlagLoopback_def)
  moreover have "\<not> eligible (Attrs eth0_down)"
    unfolding skipped_iff_not_eligible [symmetric]
    by (simp add: skipped_def eth0_down_def FlagUp_def)
  moreover have "\<not> eligible (Attrs veth_up)"
    unfolding skipped_iff_not_eligible [symmetric]
    by (simp add: skipped_def veth_up_def FlagLoopback_def FlagUp_def HasPrefix_def)
  moreover have "eligible (Attrs eth1_up)"
    using skipped_iff_not_eligible [of "Attrs eth1_up"]
    by (simp add: skipped_def eth1_up_def FlagLoopback_def FlagUp_def HasPrefix_def)
  moreover have "Device_Attributes (mkDevice (Attrs eth1_up)) ''mac-address''
       = Some (StringValue ''52:54:00:ab:cd:ef'')"
    by (simp add: mkDevice_def eth1_up_def hexDigit_def drop_bit_eq_div)
  ultimately show ?thesis
    using GetDevices_filtering [of "[lo_link, eth1_up, veth_up, eth0_down]"]
    by (simp add: mkDevice_def eth1_up_def)
qed

subsection \<open>C8: what a sub-interface adds\<close>

text \<open>
  C8 does not hold of the helpers. On a host with \<open>eth0\<close> and an empty pod namespace,
  addMacVlan and addIPVlan succeed, and the new slave of \<open>eth0\<close> is an interface of the
  host namespace: the pod namespace, like every other, is as it was. The parent and the
  other interfaces of the host are unchanged.
\<close>

theorem subinterface_on_host:
  "host pod_kernel ''mavlan-eth0'' = None \<and> host pod_kernel ''ipvaln-eth0'' = None
   \<and> netns pod_kernel 7 = Some Map.empty
   \<and> (case addMacVlan pod1_ns ''eth0'' 2 pod_kernel of
        Panic \<Rightarrow> False
      | Return (err, k') \<Rightarrow>
          err = None
          \<and> map_option dev_Kind (host k' ''mavlan-eth0'') = Some (MacvlanSlave 2)
          \<and> map_option dev_ParentIndex (host k' ''mavlan-eth0'') = Some 2
          \<and> netns k' = netns pod_kernel
          \<and> host k' ''eth0'' = Some eth0 \<and> host k' ''eth1'' = Some eth1)
   \<and> (case addIPVlan pod1_ns ''eth0'' 1 pod_kernel of
        Panic \<Rightarrow> False
      | Return (err, k') \<Rightarrow>
          err = None
          \<and> map_option dev_Kind (host k' ''ipvaln-eth0'') = Some (IPVlanSlave 1)
          \<and> map_option dev_ParentIndex (host k' ''ipvaln-eth0'') = Some 2
          \<and> netns k' = netns pod_kernel
          \<and> host k' ''eth0'' = Some eth0 \<and> host k' ''eth1'' = Some eth1)"
  by (simp add: addMacVlan_def addIPVlan_def pod_kernel_def link_defs)

subsection \<open>C9: prepared data that is not a string\<close>

text \<open>
  C9. When the prepared data is not a string, ConfigureDeviceForPod and
  CleanupDeviceForPod of the host-device driver both return the error for an invalid
  prepared data type, naming the type found, and leave the kernel state, host and
  target namespaces, as it is.
\<close>

theorem invalid_prepared_data:
  "(\<forall>s. preparedData \<noteq> AString s) \<Longrightarrow>
     ConfigureDeviceForPod device networkNamespace podSandbox preparedData k
       = (Some (InvalidPreparedDataType (dynType preparedData)), k)
     \<and> CleanupDeviceForPod device networkNamespace podSandbox preparedData k
       = (Some (InvalidPreparedDataType (dynType preparedData)), k)"
  by (cases preparedData) (simp_all add: ConfigureDeviceForPod_def CleanupDeviceForPod_def)

theorem invalid_prepared_data_witness:
  "ConfigureDeviceForPod dev_a pod1_ns pod1 (AInt 3) pod_kernel
     = (Some (InvalidPreparedDataType ''int''), pod_kernel)
   \<and> CleanupDeviceForPod dev_a pod1_ns pod1 (AInt 3) pod_kernel
     = (Some (InvalidPreparedDataType ''int''), pod_kernel)
   \<and> Error (InvalidPreparedDataType ''int'') = ''invalid prepared data type: expected string, got int''"
proof -
  have "\<forall>s. AInt 3 \<noteq> AString s" by simp
  from invalid_prepared_data [OF this, of dev_a pod1_ns pod1 pod_kernel]
  show ?thesis by simp
qed

subsection \<open>C10: deleting the ResourceSlice of a claim\<close>

text \<open>
  C10. The slice of a claim is named by the controller name, a hyphen and the claim's
  UID. Delete returns success when the client answers the deletion with not-found, so
  it returns success when the slice is already absent, and two calls of Delete in
  sequence both return success.
\<close>

theorem Delete_idempotent:
  "getResourceSliceName claim = ''sample-controller-'' @ Claim_UID claim
   \<and> (fst (ResourceSlices_Delete c (getResourceSliceName claim) cluster) = Some NotFound \<longrightarrow>
        fst (Delete c claim cluster) = None)
   \<and> (getResourceSliceName claim \<notin> slices \<longrightarrow> Delete apiserver claim slices = (None, slices))
   \<and> fst (Delete apiserver claim slices) = None
   \<and> fst (Delete apiserver claim (snd (Delete apiserver claim slices))) = None"
  by (auto simp add: Delete_def getResourceSliceName_def controllerName_def apiserver_def Let_def
      split: prod.splits option.splits)

theorem Delete_idempotent_witness:
  "getResourceSliceName eth1_claim = ''sample-controller-uid-b''
   \<and> fst (ResourceSlices_Delete apiserver ''sample-controller-uid-b'' {}) = Some NotFound
   \<and> Delete apiserver eth1_claim {} = (None, {})
   \<and> Delete apiserver eth1_claim {''sample-controller-uid-b''} = (None, {})
   \<and> fst (Delete apiserver eth1_claim (snd (Delete apiserver eth1_claim {''sample-controller-uid-b''})))
       = None"
proof -
  have name: "getResourceSliceName eth1_claim = ''sample-controller-uid-b''"
    by (simp add: getResourceSliceName_def controllerName_def eth1_claim_def)
  have absent: "fst (ResourceSlices_Delete apiserver ''sample-controller-uid-b'' {}) = Some NotFound"
    by (simp add: apiserver_def)
  have removed: "Delete apiserver eth1_claim {''sample-controller-uid-b''} = (None, {})"
    by (simp add: Delete_def name apiserver_def)
  from Delete_idempotent [where claim = eth1_claim and slices = "{}" and c = apiserver and cluster = "{}"]
    name absent
  have "Delete apiserver eth1_claim {} = (None, {})"
    by (simp add: prod_eq_iff)
  with name absent removed show ?thesis by simp
qed

end
